theory Spec2Isabelle
  imports Main "HOL-Library.Word"
begin

unbundle bit_operations_syntax

section \<open>Bytes, text and the hash primitives of the standard library\<close>

text \<open>
  \<^verbatim>\<open>src/app.py\<close> signs a request with \<^verbatim>\<open>hashlib.sha256\<close> and \<^verbatim>\<open>hmac.new\<close> over
  \<^verbatim>\<open>str.encode('utf-8')\<close>. A Python \<^verbatim>\<open>str\<close> is modelled as a \<^typ>\<open>string\<close>, whose
  characters are the code points 0..255; a \<^verbatim>\<open>bytes\<close> object is a list of 8-bit words.
\<close>

type_synonym byte = "8 word"
type_synonym bytes = "byte list"
type_synonym u32 = "32 word"

text \<open>\<^verbatim>\<open>s.encode('utf-8')\<close>: one byte below U+0080, two bytes from U+0080 to U+00FF.\<close>

definition utf8_char :: "char \<Rightarrow> bytes" where
  "utf8_char c =
     (let n = (of_char c :: nat) in
      if n < 128 then [of_nat n]
      else [of_nat (192 + n div 64), of_nat (128 + n mod 64)])"

definition utf8 :: "string \<Rightarrow> bytes" where
  "utf8 s = concat (map utf8_char s)"

subsection \<open>SHA-256 (FIPS 180-4), as \<^verbatim>\<open>hashlib.sha256\<close> computes it\<close>

text \<open>The round constants, eight rounds to a row.\<close>

definition K256 :: "u32 list" where
  "K256 = concat
    [[0x428a2f98, 0x71374491, 0xb5c0fbcf, 0xe9b5dba5, 0x3956c25b, 0x59f111f1, 0x923f82a4, 0xab1c5ed5],
     [0xd807aa98, 0x12835b01, 0x243185be, 0x550c7dc3, 0x72be5d74, 0x80deb1fe, 0x9bdc06a7, 0xc19bf174],
     [0xe49b69c1, 0xefbe4786, 0x0fc19dc6, 0x240ca1cc, 0x2de92c6f, 0x4a7484aa, 0x5cb0a9dc, 0x76f988da],
     [0x983e5152, 0xa831c66d, 0xb00327c8, 0xbf597fc7, 0xc6e00bf3, 0xd5a79147, 0x06ca6351, 0x14292967],
     [0x27b70a85, 0x2e1b2138, 0x4d2c6dfc, 0x53380d13, 0x650a7354, 0x766a0abb, 0x81c2c92e, 0x92722c85],
     [0xa2bfe8a1, 0xa81a664b, 0xc24b8b70, 0xc76c51a3, 0xd192e819, 0xd6990624, 0xf40e3585, 0x106aa070],
     [0x19a4c116, 0x1e376c08, 0x2748774c, 0x34b0bcb5, 0x391c0cb3, 0x4ed8aa4a, 0x5b9cca4f, 0x682e6ff3],
     [0x748f82ee, 0x78a5636f, 0x84c87814, 0x8cc70208, 0x90befffa, 0xa4506ceb, 0xbef9a3f7, 0xc67178f2]]"

type_synonym sha_state = "u32 \<times> u32 \<times> u32 \<times> u32 \<times> u32 \<times> u32 \<times> u32 \<times> u32"

definition H256 :: sha_state where
  "H256 = (0x6a09e667, 0xbb67ae85, 0x3c6ef372, 0xa54ff53a,
           0x510e527f, 0x9b05688c, 0x1f83d9ab, 0x5be0cd19)"

definition rotr :: "nat \<Rightarrow> u32 \<Rightarrow> u32" where
  "rotr n x = drop_bit n x OR push_bit (32 - n) x"

definition Ch :: "u32 \<Rightarrow> u32 \<Rightarrow> u32 \<Rightarrow> u32" where
  "Ch x y z = (x AND y) XOR (NOT x AND z)"

definition Maj :: "u32 \<Rightarrow> u32 \<Rightarrow> u32 \<Rightarrow> u32" where
  "Maj x y z = (x AND y) XOR (x AND z) XOR (y AND z)"

definition Sigma0 :: "u32 \<Rightarrow> u32" where
  "Sigma0 x = rotr 2 x XOR rotr 13 x XOR rotr 22 x"

definition Sigma1 :: "u32 \<Rightarrow> u32" where
  "Sigma1 x = rotr 6 x XOR rotr 11 x XOR rotr 25 x"

definition sigma0 :: "u32 \<Rightarrow> u32" where
  "sigma0 x = rotr 7 x XOR rotr 18 x XOR drop_bit 3 x"

definition sigma1 :: "u32 \<Rightarrow> u32" where
  "sigma1 x = rotr 17 x XOR rotr 19 x XOR drop_bit 10 x"

text \<open>Big-endian packing of four bytes into a word, and back.\<close>

definition be32 :: "bytes \<Rightarrow> u32" where
  "be32 bs = foldl (\<lambda>acc b. push_bit 8 acc OR ucast b) 0 bs"

definition u32_bytes :: "u32 \<Rightarrow> bytes" where
  "u32_bytes w = [ucast (drop_bit 24 w), ucast (drop_bit 16 w), ucast (drop_bit 8 w), ucast w]"

definition u64_bytes :: "64 word \<Rightarrow> bytes" where
  "u64_bytes w = map (\<lambda>i. ucast (drop_bit (8 * (7 - i)) w)) [0..<8]"

text \<open>Padding: a 1 bit, zeros up to 56 mod 64 bytes, then the bit length on 64 bits.\<close>

definition sha_pad :: "bytes \<Rightarrow> bytes" where
  "sha_pad m =
     m @ [0x80] @ replicate ((119 - length m mod 64) mod 64) 0 @ u64_bytes (of_nat (8 * length m))"

text \<open>\<open>pieces n k xs\<close>: the first \<open>k\<close> consecutive pieces of \<open>n\<close> elements of \<open>xs\<close>.\<close>

fun pieces :: "nat \<Rightarrow> nat \<Rightarrow> 'a list \<Rightarrow> 'a list list" where
  "pieces n 0 xs = []"
| "pieces n (Suc k) xs = take n xs # pieces n k (drop n xs)"

text \<open>The message schedule: sixteen words of the block, extended to sixty-four.\<close>

fun schedule :: "nat \<Rightarrow> u32 list \<Rightarrow> u32 list" where
  "schedule 0 w = w"
| "schedule (Suc k) w =
     (let n = length w in
      schedule k (w @ [sigma1 (w ! (n - 2)) + w ! (n - 7) + sigma0 (w ! (n - 15)) + w ! (n - 16)]))"

definition sha_round :: "sha_state \<Rightarrow> u32 \<times> u32 \<Rightarrow> sha_state" where
  "sha_round s kw =
     (case s of (a, b, c, d, e, f, g, h) \<Rightarrow>
        let t1 = h + Sigma1 e + Ch e f g + fst kw + snd kw;
            t2 = Sigma0 a + Maj a b c
        in (t1 + t2, a, b, c, d + t1, e, f, g))"

definition add_state :: "sha_state \<Rightarrow> sha_state \<Rightarrow> sha_state" where
  "add_state s t =
     (case s of (a, b, c, d, e, f, g, h) \<Rightarrow>
      case t of (a', b', c', d', e', f', g', h') \<Rightarrow>
        (a + a', b + b', c + c', d + d', e + e', f + f', g + g', h + h'))"

definition compress :: "sha_state \<Rightarrow> bytes \<Rightarrow> sha_state" where
  "compress s block =
     (let w = schedule 48 (map be32 (pieces 4 16 block))
      in add_state s (foldl sha_round s (zip K256 w)))"

definition sha256 :: "bytes \<Rightarrow> bytes" where
  "sha256 m =
     (let p = sha_pad m in
      case foldl compress H256 (pieces 64 (length p div 64) p) of
        (a, b, c, d, e, f, g, h) \<Rightarrow> concat (map u32_bytes [a, b, c, d, e, f, g, h]))"

subsection \<open>\<^verbatim>\<open>hexdigest\<close>: two lowercase hexadecimal digits per byte\<close>

definition hex_digit :: "nat \<Rightarrow> char" where
  "hex_digit n = ''0123456789abcdef'' ! (n mod 16)"

definition hex_byte :: "byte \<Rightarrow> string" where
  "hex_byte b = [hex_digit (unat b div 16), hex_digit (unat b mod 16)]"

definition hexdigest :: "bytes \<Rightarrow> string" where
  "hexdigest bs = concat (map hex_byte bs)"

subsection \<open>HMAC (RFC 2104) with SHA-256, as \<^verbatim>\<open>hmac.new(key, msg, hashlib.sha256)\<close>\<close>

definition hmac_key :: "bytes \<Rightarrow> bytes" where
  "hmac_key key =
     (let k = (if length key > 64 then sha256 key else key)
      in k @ replicate (64 - length k) 0)"

definition hmac_sha256 :: "bytes \<Rightarrow> bytes \<Rightarrow> bytes" where
  "hmac_sha256 key msg =
     (let k = hmac_key key;
          inner = sha256 (map (\<lambda>b. b XOR 0x36) k @ msg)
      in sha256 (map (\<lambda>b. b XOR 0x5c) k @ inner))"


section \<open>Python values and the standard-library operations the program uses\<close>

text \<open>
  A value decoded from JSON (\<^verbatim>\<open>request.get_json()\<close>, \<^verbatim>\<open>response.json()\<close>) or built from
  literals: \<^verbatim>\<open>None\<close>, \<^verbatim>\<open>bool\<close>, \<^verbatim>\<open>int\<close>, \<^verbatim>\<open>str\<close>, \<^verbatim>\<open>list\<close> and \<^verbatim>\<open>dict\<close> with string keys in
  insertion order. Floating-point numbers are left out.
\<close>

datatype json =
    JNull
  | JBool bool
  | JInt int
  | JStr string
  | JArray "json list"
  | JObject "(string \<times> json) list"

text \<open>Exceptions that the operations below raise.\<close>

datatype exn = TypeError | KeyError | IndexError | AttributeError

text \<open>\<^verbatim>\<open>sep.join(parts)\<close>\<close>

fun join :: "string \<Rightarrow> string list \<Rightarrow> string" where
  "join sep [] = []"
| "join sep [x] = x"
| "join sep (x # y # ys) = x @ sep @ join sep (y # ys)"

text \<open>\<^verbatim>\<open>str(n)\<close> for an integer: decimal digits, with a minus sign below zero.\<close>

fun dec :: "nat \<Rightarrow> string" where
  "dec n = (if n < 10 then [hex_digit n] else dec (n div 10) @ [hex_digit (n mod 10)])"

declare dec.simps [simp del]

definition str_int :: "int \<Rightarrow> string" where
  "str_int i = (if i < 0 then CHR ''-'' # dec (nat (- i)) else dec (nat i))"

subsection \<open>\<^verbatim>\<open>json.dumps\<close> with \<^verbatim>\<open>ensure_ascii=True\<close>\<close>

text \<open>
  Inside a string, backslash and double quote are escaped, the control characters
  \<^verbatim>\<open>\b \t \n \f \r\<close> have short escapes, and every other character outside
  \<^verbatim>\<open>' '..'~'\<close> becomes \<^verbatim>\<open>\u00xx\<close>.
\<close>

definition escape_char :: "char \<Rightarrow> string" where
  "escape_char c =
     (let n = (of_char c :: nat) in
      if n = 0x5C then [CHR 0x5C, CHR 0x5C]
      else if n = 0x22 then [CHR 0x5C, CHR 0x22]
      else if n = 8 then [CHR 0x5C, CHR ''b'']
      else if n = 12 then [CHR 0x5C, CHR ''f'']
      else if n = 10 then [CHR 0x5C, CHR ''n'']
      else if n = 13 then [CHR 0x5C, CHR ''r'']
      else if n = 9 then [CHR 0x5C, CHR ''t'']
      else if n < 32 \<or> 126 < n then [CHR 0x5C, CHR ''u'', CHR ''0'', CHR ''0''] @ hex_byte (of_nat n)
      else [c])"

definition encode_basestring_ascii :: "string \<Rightarrow> string" where
  "encode_basestring_ascii s = [CHR 0x22] @ concat (map escape_char s) @ [CHR 0x22]"

text \<open>
  \<open>json_dumps item_sep key_sep v\<close> is \<^verbatim>\<open>json.dumps(v, separators=(item_sep, key_sep))\<close>;
  \<^verbatim>\<open>json.dumps(v)\<close> uses the default separators \<^verbatim>\<open>(', ', ': ')\<close>.
\<close>

fun json_dumps :: "string \<Rightarrow> string \<Rightarrow> json \<Rightarrow> string" where
  "json_dumps isep ksep JNull = ''null''"
| "json_dumps isep ksep (JBool b) = (if b then ''true'' else ''false'')"
| "json_dumps isep ksep (JInt i) = str_int i"
| "json_dumps isep ksep (JStr s) = encode_basestring_ascii s"
| "json_dumps isep ksep (JArray xs) =
     ''['' @ join isep (map (json_dumps isep ksep) xs) @ '']''"
| "json_dumps isep ksep (JObject kvs) =
     ''{'' @ join isep (map (\<lambda>kv. encode_basestring_ascii (fst kv) @ ksep @
                                    json_dumps isep ksep (snd kv)) kvs) @ ''}''"

definition json_dumps_default :: "json \<Rightarrow> string" where
  "json_dumps_default v = json_dumps '', '' '': '' v"

subsection \<open>Truth value, membership, subscription and iteration\<close>

text \<open>\<^verbatim>\<open>bool(v)\<close>\<close>

fun truthy :: "json \<Rightarrow> bool" where
  "truthy JNull = False"
| "truthy (JBool b) = b"
| "truthy (JInt i) = (i \<noteq> 0)"
| "truthy (JStr s) = (s \<noteq> [])"
| "truthy (JArray xs) = (xs \<noteq> [])"
| "truthy (JObject kvs) = (kvs \<noteq> [])"

fun starts_with :: "string \<Rightarrow> string \<Rightarrow> bool" where
  "starts_with [] s = True"
| "starts_with (p # ps) [] = False"
| "starts_with (p # ps) (c # cs) = (p = c \<and> starts_with ps cs)"

fun contains_str :: "string \<Rightarrow> string \<Rightarrow> bool" where
  "contains_str k [] = (k = [])"
| "contains_str k (c # cs) = (starts_with k (c # cs) \<or> contains_str k cs)"

text \<open>
  \<^verbatim>\<open>k in v\<close> for a string \<open>k\<close>: a key of a dict, an element of a list, a substring of
  a string; \<^verbatim>\<open>TypeError\<close> on \<^verbatim>\<open>None\<close>, a bool or an int.
\<close>

fun py_in :: "string \<Rightarrow> json \<Rightarrow> exn + bool" where
  "py_in k (JObject kvs) = Inr (k \<in> set (map fst kvs))"
| "py_in k (JArray xs) = Inr (JStr k \<in> set xs)"
| "py_in k (JStr s) = Inr (contains_str k s)"
| "py_in k v = Inl TypeError"

text \<open>\<^verbatim>\<open>v[k]\<close> for a string \<open>k\<close>: only a dict can be indexed by a string.\<close>

fun getitem :: "json \<Rightarrow> string \<Rightarrow> exn + json" where
  "getitem (JObject kvs) k = (case map_of kvs k of None \<Rightarrow> Inl KeyError | Some x \<Rightarrow> Inr x)"
| "getitem v k = Inl TypeError"

text \<open>\<^verbatim>\<open>v[0]\<close>: the first element of a list or string; a dict has no key \<^verbatim>\<open>0\<close>.\<close>

fun getitem0 :: "json \<Rightarrow> exn + json" where
  "getitem0 (JArray []) = Inl IndexError"
| "getitem0 (JArray (x # xs)) = Inr x"
| "getitem0 (JStr []) = Inl IndexError"
| "getitem0 (JStr (c # cs)) = Inr (JStr [c])"
| "getitem0 (JObject kvs) = Inl KeyError"
| "getitem0 v = Inl TypeError"

text \<open>\<^verbatim>\<open>v.get(k, default)\<close>: only a dict has the method.\<close>

fun py_get :: "json \<Rightarrow> string \<Rightarrow> json \<Rightarrow> exn + json" where
  "py_get (JObject kvs) k d = Inr (case map_of kvs k of None \<Rightarrow> d | Some x \<Rightarrow> x)"
| "py_get v k d = Inl AttributeError"

text \<open>\<^verbatim>\<open>for item in v\<close>: the elements of a list, the keys of a dict, the characters of a string.\<close>

fun py_iter :: "json \<Rightarrow> exn + json list" where
  "py_iter (JArray xs) = Inr xs"
| "py_iter (JObject kvs) = Inr (map (\<lambda>kv. JStr (fst kv)) kvs)"
| "py_iter (JStr s) = Inr (map (\<lambda>c. JStr [c]) s)"
| "py_iter v = Inl TypeError"

section \<open>The clock and the process environment\<close>

text \<open>
  \<^verbatim>\<open>datetime.datetime\<close>, and the directives of \<^verbatim>\<open>strftime\<close> that the program uses: each
  is the decimal number padded with zeros, to four digits for \<^verbatim>\<open>%Y\<close> and to two for the others
  (the C library prints a year below 1000 without padding; the clock never shows one).
\<close>

record datetime =
  year :: nat
  month :: nat
  day :: nat
  hour :: nat
  minute :: nat
  second :: nat

definition zpad :: "nat \<Rightarrow> nat \<Rightarrow> string" where
  "zpad w n = replicate (w - length (dec n)) CHR ''0'' @ dec n"

definition directive :: "datetime \<Rightarrow> char \<Rightarrow> string" where
  "directive t d =
     (if d = CHR ''Y'' then zpad 4 (year t)
      else if d = CHR ''m'' then zpad 2 (month t)
      else if d = CHR ''d'' then zpad 2 (day t)
      else if d = CHR ''H'' then zpad 2 (hour t)
      else if d = CHR ''M'' then zpad 2 (minute t)
      else if d = CHR ''S'' then zpad 2 (second t)
      else [CHR ''%'', d])"

fun strftime :: "datetime \<Rightarrow> string \<Rightarrow> string" where
  "strftime t [] = []"
| "strftime t [c] = [c]"
| "strftime t (c # d # ds) =
     (if c = CHR ''%'' then directive t d @ strftime t ds else c # strftime t (d # ds))"

text \<open>
  What a call can read besides its arguments: the clock (\<^verbatim>\<open>datetime.datetime.utcnow()\<close>)
  and the environment variables (\<^verbatim>\<open>os.getenv\<close>).
\<close>

record world =
  utcnow :: datetime
  environ :: "string \<Rightarrow> string option"

text \<open>The module-level configuration (lines 19 to 24), read once from the environment.\<close>

record config =
  ASSOCIATE_TAG :: "string option"
  ACCESS_KEY_ID :: "string option"
  SECRET_ACCESS_KEY :: "string option"
  HOST :: string
  REGION :: string

definition getenv_default :: "world \<Rightarrow> string \<Rightarrow> string \<Rightarrow> string" where
  "getenv_default w name d = (case environ w name of None \<Rightarrow> d | Some v \<Rightarrow> v)"

definition load_config :: "world \<Rightarrow> config" where
  "load_config w =
     \<lparr> ASSOCIATE_TAG = environ w ''ASSOCIATE_TAG'',
       ACCESS_KEY_ID = environ w ''ACCESS_KEY_ID'',
       SECRET_ACCESS_KEY = environ w ''SECRET_ACCESS_KEY'',
       HOST = getenv_default w ''HOST'' ''webservices.amazon.in'',
       REGION = getenv_default w ''REGION'' ''eu-west-1'' \<rparr>"

definition SERVICE :: string where
  "SERVICE = ''ProductAdvertisingAPI''"

section \<open>The request signer: \<^verbatim>\<open>sign_paapi_request\<close> (lines 51 to 106)\<close>

text \<open>The local values of the function, in the order in which it computes them.\<close>

definition amz_date_of :: "datetime \<Rightarrow> string" where
  "amz_date_of t = strftime t ''%Y%m%dT%H%M%SZ''"

definition date_stamp_of :: "datetime \<Rightarrow> string" where
  "date_stamp_of t = strftime t ''%Y%m%d''"

definition newline :: string where
  "newline = [CHR 0x0A]"

definition signed_headers :: string where
  "signed_headers = ''host;x-amz-date''"

definition canonical_headers :: "string \<Rightarrow> string \<Rightarrow> string" where
  "canonical_headers host amz_date =
     ''host:'' @ host @ newline @ ''x-amz-date:'' @ amz_date @ newline"

definition payload_str :: "json \<Rightarrow> string" where
  "payload_str payload = json_dumps '','' '':'' payload"

definition payload_hash :: "json \<Rightarrow> string" where
  "payload_hash payload = hexdigest (sha256 (utf8 (payload_str payload)))"

definition canonical_request :: "string \<Rightarrow> string \<Rightarrow> string \<Rightarrow> json \<Rightarrow> string" where
  "canonical_request host amz_date api_path payload =
     (let canonical_uri = api_path;
          canonical_querystring = []
      in join newline
           [''POST'',
            canonical_uri,
            canonical_querystring,
            canonical_headers host amz_date,
            signed_headers,
            payload_hash payload])"

definition algorithm :: string where
  "algorithm = ''AWS4-HMAC-SHA256''"

definition credential_scope :: "string \<Rightarrow> string \<Rightarrow> string \<Rightarrow> string" where
  "credential_scope date_stamp region service =
     join ''/'' [date_stamp, region, service, ''aws4_request'']"

definition string_to_sign :: "string \<Rightarrow> string \<Rightarrow> string \<Rightarrow> string" where
  "string_to_sign amz_date scope creq =
     join newline [algorithm, amz_date, scope, hexdigest (sha256 (utf8 creq))]"

definition sign_key :: "bytes \<Rightarrow> string \<Rightarrow> bytes" where
  "sign_key key msg = hmac_sha256 key (utf8 msg)"

definition signing_key :: "string \<Rightarrow> string \<Rightarrow> string \<Rightarrow> string \<Rightarrow> bytes" where
  "signing_key secret_key date_stamp region service =
     (let k_date = sign_key (utf8 (''AWS4'' @ secret_key)) date_stamp;
          k_region = sign_key k_date region;
          k_service = sign_key k_region service;
          k_signing = sign_key k_service ''aws4_request''
      in k_signing)"

definition signature :: "bytes \<Rightarrow> string \<Rightarrow> string" where
  "signature k_signing sts = hexdigest (hmac_sha256 k_signing (utf8 sts))"

definition authorization_header :: "string \<Rightarrow> string \<Rightarrow> string \<Rightarrow> string" where
  "authorization_header access_key scope sig =
     algorithm @ '' '' @
     ''Credential='' @ access_key @ ''/'' @ scope @ '', '' @
     ''SignedHeaders='' @ signed_headers @ '', '' @
     ''Signature='' @ sig"

text \<open>The returned dict literal, as the list of its entries in order.\<close>

type_synonym headers = "(string \<times> string) list"

definition sign_paapi_request ::
  "world \<Rightarrow> string \<Rightarrow> string \<Rightarrow> string \<Rightarrow> string \<Rightarrow> string \<Rightarrow> string \<Rightarrow> json \<Rightarrow> headers" where
  "sign_paapi_request w access_key secret_key host region service api_path payload =
     (let t = utcnow w;
          amz_date = amz_date_of t;
          date_stamp = date_stamp_of t;
          creq = canonical_request host amz_date api_path payload;
          scope = credential_scope date_stamp region service;
          sts = string_to_sign amz_date scope creq;
          k_signing = signing_key secret_key date_stamp region service;
          sig = signature k_signing sts
      in [(''Content-Type'', ''application/json; charset=utf-8''),
          (''X-Amz-Date'', amz_date),
          (''X-Amz-Target'', service @ ''.SearchItems''),
          (''Authorization'', authorization_header access_key scope sig),
          (''Host'', host)])"

section \<open>The search handler: \<^verbatim>\<open>search_products\<close> (lines 110 to 175)\<close>

text \<open>
  The outbound call \<^verbatim>\<open>requests.post(api_endpoint, headers=headers, data=...)\<close> and what
  comes back from it through \<^verbatim>\<open>raise_for_status()\<close> and \<^verbatim>\<open>response.json()\<close>.
\<close>

record outbound =
  url :: string
  out_headers :: headers
  out_data :: string

datatype upstream =
    ConnectionFailed
  | HTTPStatusError "json option"
  | NotJSON
  | Response json

text \<open>
  What the handler gives back to the web framework: a \<^verbatim>\<open>jsonify\<close> body with a status, a
  status 500 whose \<^verbatim>\<open>error\<close> text is built from an exception, or an exception that
  leaves the handler. The text of the 500 replies embeds the message of a library exception
  and is kept as the kind of failure only. A body that is not JSON after a good status is
  reported as \<open>InvalidJSON\<close>, the clause written for it at line 170.
\<close>

datatype failure =
    RequestError
  | AmazonError json
  | InvalidJSON
  | Unexpected exn

datatype reply =
    Reply nat json
  | Failed failure
  | Uncaught exn

text \<open>The calls that the handler makes, in order.\<close>

datatype event = SignCall | PostCall outbound

text \<open>Sequencing of operations that can raise.\<close>

definition and_then :: "exn + 'a \<Rightarrow> ('a \<Rightarrow> exn + 'b) \<Rightarrow> exn + 'b" where
  "and_then r f = (case r of Inl e \<Rightarrow> Inl e | Inr x \<Rightarrow> f x)"

text \<open>Lines 146 to 150: the flag \<^verbatim>\<open>is_prime_eligible\<close> of one item.\<close>

definition is_prime_eligible :: "json \<Rightarrow> exn + bool" where
  "is_prime_eligible item =
     and_then (py_in ''Offers'' item) (\<lambda>has_offers.
       if \<not> has_offers then Inr False
       else and_then (getitem item ''Offers'') (\<lambda>offers.
         and_then (py_in ''Listings'' offers) (\<lambda>has_listings.
           if \<not> has_listings then Inr False
           else and_then (getitem offers ''Listings'') (\<lambda>listings.
             if \<not> truthy listings then Inr False
             else and_then (getitem0 listings) (\<lambda>first_listing.
               and_then (py_get first_listing ''IsPrimeEligible'' (JBool False)) (\<lambda>flag.
                 Inr (truthy flag)))))))"

text \<open>Lines 145 to 155: the loop over the items, appending to \<^verbatim>\<open>filtered_items\<close>.\<close>

fun filter_loop :: "json \<Rightarrow> json list \<Rightarrow> json list \<Rightarrow> exn + json list" where
  "filter_loop prime_only [] filtered_items = Inr filtered_items"
| "filter_loop prime_only (item # rest) filtered_items =
     (case is_prime_eligible item of
        Inl e \<Rightarrow> Inl e
      | Inr eligible \<Rightarrow>
          if truthy prime_only \<and> \<not> eligible then filter_loop prime_only rest filtered_items
          else filter_loop prime_only rest (filtered_items @ [item]))"

text \<open>Lines 143 to 155: \<^verbatim>\<open>filtered_items\<close> from the decoded upstream response.\<close>

definition filter_response :: "json \<Rightarrow> json \<Rightarrow> exn + json list" where
  "filter_response prime_only api_response =
     and_then (py_in ''SearchResult'' api_response) (\<lambda>has_result.
       if \<not> has_result then Inr []
       else and_then (getitem api_response ''SearchResult'') (\<lambda>search_result.
         and_then (py_in ''Items'' search_result) (\<lambda>has_items.
           if \<not> has_items then Inr []
           else and_then (getitem search_result ''Items'') (\<lambda>items.
             and_then (py_iter items) (\<lambda>xs. filter_loop prime_only xs [])))))"

definition success_body :: "json list \<Rightarrow> json" where
  "success_body filtered_items =
     JObject [(''Items'', JArray filtered_items),
              (''TotalFilteredCount'', JInt (int (length filtered_items)))]"

text \<open>Lines 122 to 134.\<close>

definition make_payload :: "config \<Rightarrow> json \<Rightarrow> json" where
  "make_payload cfg keywords =
     JObject
       [(''Keywords'', keywords),
        (''SearchIndex'', JStr ''All''),
        (''PartnerTag'', (case ASSOCIATE_TAG cfg of None \<Rightarrow> JNull | Some tag \<Rightarrow> JStr tag)),
        (''PartnerType'', JStr ''Associates''),
        (''ItemCount'', JInt 10),
        (''Resources'', JArray
           [JStr ''Images.Primary.Medium'',
            JStr ''ItemInfo.Title'',
            JStr ''Offers.Listings.Price'',
            JStr ''Offers.Listings.IsPrimeEligible''])]"

text \<open>
  Lines 159 to 169, for a response with an error status: the message of the first entry of
  \<^verbatim>\<open>Errors\<close> when the error body is JSON and has one, the general message otherwise. An
  exception raised while the error body is read leaves the handler.
\<close>

definition status_error_reply :: "json option \<Rightarrow> reply" where
  "status_error_reply error_body =
     (case error_body of
        None \<Rightarrow> Failed RequestError
      | Some error_details \<Rightarrow>
          (case py_in ''Errors'' error_details of
             Inl e \<Rightarrow> Uncaught e
           | Inr False \<Rightarrow> Failed RequestError
           | Inr True \<Rightarrow>
               (case and_then (getitem error_details ''Errors'') (\<lambda>errors.
                       and_then (getitem0 errors) (\<lambda>first. getitem first ''Message'')) of
                  Inl e \<Rightarrow> Uncaught e
                | Inr message \<Rightarrow> Failed (AmazonError message))))"

text \<open>
  The handler. \<open>data\<close> is \<^verbatim>\<open>request.get_json()\<close>, \<open>post\<close> is the upstream service behind
  \<^verbatim>\<open>requests.post\<close>. A credential that is \<^verbatim>\<open>None\<close> makes the string concatenation in the
  signer raise \<^verbatim>\<open>TypeError\<close>, which the last \<^verbatim>\<open>except\<close> clause turns into a status 500.
\<close>

definition search_products ::
  "config \<Rightarrow> world \<Rightarrow> (outbound \<Rightarrow> upstream) \<Rightarrow> json \<Rightarrow> reply \<times> event list" where
  "search_products cfg w post data =
     (case and_then (py_get data ''keywords'' JNull) (\<lambda>keywords.
             and_then (py_get data ''primeOnly'' (JBool True)) (\<lambda>prime_only.
               Inr (keywords, prime_only))) of
        Inl e \<Rightarrow> (Uncaught e, [])
      | Inr (keywords, prime_only) \<Rightarrow>
          if \<not> truthy keywords
          then (Reply 400 (JObject [(''error'', JStr ''Keywords are required.'')]), [])
          else
            let api_path = ''/paapi5/searchitems'';
                api_endpoint = ''https://'' @ HOST cfg @ api_path;
                payload = make_payload cfg keywords
            in (case (ACCESS_KEY_ID cfg, SECRET_ACCESS_KEY cfg) of
                  (Some access_key, Some secret_key) \<Rightarrow>
                    let hdrs = sign_paapi_request w access_key secret_key (HOST cfg) (REGION cfg)
                                 SERVICE api_path payload;
                        req = \<lparr> url = api_endpoint, out_headers = hdrs,
                                out_data = json_dumps_default payload \<rparr>
                    in (case post req of
                          ConnectionFailed \<Rightarrow> Failed RequestError
                        | HTTPStatusError error_body \<Rightarrow> status_error_reply error_body
                        | NotJSON \<Rightarrow> Failed InvalidJSON
                        | Response api_response \<Rightarrow>
                            (case filter_response prime_only api_response of
                               Inl e \<Rightarrow> Failed (Unexpected e)
                             | Inr filtered_items \<Rightarrow> Reply 200 (success_body filtered_items)),
                        [SignCall, PostCall req])
                | _ \<Rightarrow> (Failed (Unexpected TypeError), [SignCall])))"

section \<open>The filtering rule in the words of the specification\<close>

text \<open>
  The shape of an upstream item: an object that has no \<^verbatim>\<open>Offers\<close>, or whose \<^verbatim>\<open>Offers\<close> is an
  object that has no \<^verbatim>\<open>Listings\<close> or an empty list of them, or whose first listing is an
  object with a boolean \<^verbatim>\<open>IsPrimeEligible\<close>.
\<close>

fun boolean_flag :: "json \<Rightarrow> bool" where
  "boolean_flag (JObject listing) =
     (case map_of listing ''IsPrimeEligible'' of Some (JBool b) \<Rightarrow> True | _ \<Rightarrow> False)"
| "boolean_flag v = False"

fun listings_shape :: "json \<Rightarrow> bool" where
  "listings_shape (JArray []) = True"
| "listings_shape (JArray (first_listing # rest)) = boolean_flag first_listing"
| "listings_shape v = False"

fun offers_shape :: "json \<Rightarrow> bool" where
  "offers_shape (JObject offers) =
     (case map_of offers ''Listings'' of None \<Rightarrow> True | Some listings \<Rightarrow> listings_shape listings)"
| "offers_shape v = False"

fun item_shape :: "json \<Rightarrow> bool" where
  "item_shape (JObject item) =
     (case map_of item ''Offers'' of None \<Rightarrow> True | Some offers \<Rightarrow> offers_shape offers)"
| "item_shape v = False"

text \<open>The first listing of the item has \<^verbatim>\<open>IsPrimeEligible\<close> equal to \<^verbatim>\<open>true\<close>.\<close>

fun listing_prime :: "json \<Rightarrow> bool" where
  "listing_prime (JObject listing) = (map_of listing ''IsPrimeEligible'' = Some (JBool True))"
| "listing_prime v = False"

fun listings_prime :: "json \<Rightarrow> bool" where
  "listings_prime (JArray (first_listing # rest)) = listing_prime first_listing"
| "listings_prime v = False"

fun offers_prime :: "json \<Rightarrow> bool" where
  "offers_prime (JObject offers) =
     (case map_of offers ''Listings'' of None \<Rightarrow> False | Some listings \<Rightarrow> listings_prime listings)"
| "offers_prime v = False"

fun first_listing_prime :: "json \<Rightarrow> bool" where
  "first_listing_prime (JObject item) =
     (case map_of item ''Offers'' of None \<Rightarrow> False | Some offers \<Rightarrow> offers_prime offers)"
| "first_listing_prime v = False"

section \<open>Sample inputs\<close>

definition sample_world :: world where
  "sample_world =
     \<lparr> utcnow = \<lparr> year = 2024, month = 1, day = 1, hour = 0, minute = 0, second = 0 \<rparr>,
       environ = (\<lambda>name. None) \<rparr>"

definition sample_config :: config where
  "sample_config =
     \<lparr> ASSOCIATE_TAG = Some ''tag-21'',
       ACCESS_KEY_ID = Some ''AKIDEXAMPLE'',
       SECRET_ACCESS_KEY = Some ''secret'',
       HOST = ''webservices.amazon.in'',
       REGION = ''eu-west-1'' \<rparr>"

text \<open>
  Four items: a prime-eligible one, one that is not, one without \<^verbatim>\<open>Offers\<close>, and one with an
  empty list of listings.
\<close>

definition item_prime :: json where
  "item_prime =
     JObject [(''ASIN'', JStr ''A1''),
              (''Offers'', JObject [(''Listings'', JArray [JObject [(''IsPrimeEligible'', JBool True)]])])]"

definition item_not_prime :: json where
  "item_not_prime =
     JObject [(''ASIN'', JStr ''A2''),
              (''Offers'', JObject [(''Listings'', JArray [JObject [(''IsPrimeEligible'', JBool False)]])])]"

definition item_no_offers :: json where
  "item_no_offers = JObject [(''ASIN'', JStr ''A3'')]"

definition item_no_listings :: json where
  "item_no_listings = JObject [(''ASIN'', JStr ''A4''), (''Offers'', JObject [(''Listings'', JArray [])])]"

definition sample_items :: "json list" where
  "sample_items = [item_prime, item_not_prime, item_no_offers, item_no_listings]"

definition sample_post :: "outbound \<Rightarrow> upstream" where
  "sample_post req =
     Response (JObject [(''SearchResult'', JObject [(''Items'', JArray sample_items)])])"

definition sample_request :: "json \<Rightarrow> outbound" where
  "sample_request keywords =
     \<lparr> url = ''https://webservices.amazon.in/paapi5/searchitems'',
       out_headers = sign_paapi_request sample_world ''AKIDEXAMPLE'' ''secret''
                       ''webservices.amazon.in'' ''eu-west-1'' ''ProductAdvertisingAPI''
                       ''/paapi5/searchitems'' (make_payload sample_config keywords),
       out_data = json_dumps_default (make_payload sample_config keywords) \<rparr>"

definition empty_result_post :: "outbound \<Rightarrow> upstream" where
  "empty_result_post req = Response (JObject [(''SearchResult'', JObject [])])"

section \<open>Properties of the hash primitives and of the text helpers\<close>

text \<open>The digest of \<^verbatim>\<open>abc\<close> is the one that FIPS 180-4 publishes.\<close>

lemma sha256_abc:
  "hexdigest (sha256 (utf8 ''abc'')) =
     ''ba7816bf8f01cfea414140de5dae2223b00361a396177a9cb410ff61f20015ad''"
  by code_simp

lemma length_u32_bytes: "length (u32_bytes w) = 4"
  by (simp add: u32_bytes_def)

lemma length_sha256: "length (sha256 m) = 32"
  by (simp add: sha256_def Let_def length_u32_bytes split: prod.split)

lemma length_hmac_sha256: "length (hmac_sha256 key msg) = 32"
  by (simp add: hmac_sha256_def Let_def length_sha256)

lemma length_hex_byte: "length (hex_byte b) = 2"
  by (simp add: hex_byte_def)

lemma length_hexdigest: "length (hexdigest bs) = 2 * length bs"
  by (induction bs) (simp_all add: hexdigest_def length_hex_byte)

lemma hex_digit_lower: "hex_digit n \<in> set ''0123456789abcdef''"
proof -
  have "n mod 16 < length ''0123456789abcdef''" by simp
  then show ?thesis unfolding hex_digit_def by (rule nth_mem)
qed

lemma hex_byte_lower: "set (hex_byte b) \<subseteq> set ''0123456789abcdef''"
  using hex_digit_lower [of "unat b div 16"] hex_digit_lower [of "unat b mod 16"]
  by (simp add: hex_byte_def)

lemma hexdigest_lower: "set (hexdigest bs) \<subseteq> set ''0123456789abcdef''"
  using hex_byte_lower by (induction bs) (auto simp: hexdigest_def)

lemma length_signature: "length (signature k sts) = 64"
  by (simp add: signature_def length_hexdigest length_hmac_sha256)

lemma signature_lower: "set (signature k sts) \<subseteq> set ''0123456789abcdef''"
  unfolding signature_def by (rule hexdigest_lower)

lemma amz_date_layout:
  "amz_date_of t = zpad 4 (year t) @ zpad 2 (month t) @ zpad 2 (day t) @ ''T'' @
                   zpad 2 (hour t) @ zpad 2 (minute t) @ zpad 2 (second t) @ ''Z''"
  by (simp add: amz_date_of_def directive_def)

lemma date_stamp_layout:
  "date_stamp_of t = zpad 4 (year t) @ zpad 2 (month t) @ zpad 2 (day t)"
  by (simp add: date_stamp_of_def directive_def)

lemma zpad_values:
  "zpad 4 2024 = ''2024''" "zpad 2 1 = ''01''" "zpad 2 (Suc 0) = ''01''" "zpad 2 0 = ''00''"
  by (simp_all add: zpad_def dec.simps hex_digit_def)

lemma credential_scope_layout:
  "credential_scope date_stamp region service =
     date_stamp @ ''/'' @ region @ ''/'' @ service @ ''/aws4_request''"
  by (simp add: credential_scope_def)

lemma authorization_layout:
  "authorization_header access_key (credential_scope date_stamp region service) sig =
     ''AWS4-HMAC-SHA256 Credential='' @ access_key @ ''/'' @ date_stamp @ ''/'' @ region @ ''/'' @
     service @ ''/aws4_request, SignedHeaders=host;x-amz-date, Signature='' @ sig"
  by (simp add: authorization_header_def credential_scope_layout algorithm_def signed_headers_def)

lemma sign_authorization:
  "map_of (sign_paapi_request w access_key secret_key host region service api_path payload)
     ''Authorization'' =
   Some (authorization_header access_key
          (credential_scope (date_stamp_of (utcnow w)) region service)
          (signature (signing_key secret_key (date_stamp_of (utcnow w)) region service)
             (string_to_sign (amz_date_of (utcnow w))
                (credential_scope (date_stamp_of (utcnow w)) region service)
                (canonical_request host (amz_date_of (utcnow w)) api_path payload))))"
  by (simp add: sign_paapi_request_def Let_def)

section \<open>The signer\<close>

text \<open>
  C2. Determinism: the header mapping depends on the arguments and on the clock only. Two
  calls with the same access key, secret key, host, region, service, path and payload, made in
  two states of the world that show the same UTC time, return the same list of header names
  and values, whatever else (the environment) differs between the two states.
\<close>

theorem sign_paapi_request_deterministic:
  "utcnow w1 = utcnow w2 \<Longrightarrow>
   sign_paapi_request w1 access_key secret_key host region service api_path payload =
   sign_paapi_request w2 access_key secret_key host region service api_path payload"
  by (simp add: sign_paapi_request_def)

theorem sign_paapi_request_deterministic_witness:
  "utcnow \<lparr> utcnow = \<lparr> year = 2024, month = 1, day = 1, hour = 0, minute = 0, second = 0 \<rparr>,
            environ = (\<lambda>name. None) \<rparr> =
   utcnow \<lparr> utcnow = \<lparr> year = 2024, month = 1, day = 1, hour = 0, minute = 0, second = 0 \<rparr>,
            environ = (\<lambda>name. Some ''x'') \<rparr> \<and>
   sign_paapi_request
     \<lparr> utcnow = \<lparr> year = 2024, month = 1, day = 1, hour = 0, minute = 0, second = 0 \<rparr>,
       environ = (\<lambda>name. None) \<rparr>
     ''AKIDEXAMPLE'' ''secret'' ''webservices.amazon.in'' ''eu-west-1'' ''ProductAdvertisingAPI''
     ''/paapi5/searchitems'' (JObject [(''Keywords'', JStr ''shoes'')]) =
   sign_paapi_request
     \<lparr> utcnow = \<lparr> year = 2024, month = 1, day = 1, hour = 0, minute = 0, second = 0 \<rparr>,
       environ = (\<lambda>name. Some ''x'') \<rparr>
     ''AKIDEXAMPLE'' ''secret'' ''webservices.amazon.in'' ''eu-west-1'' ''ProductAdvertisingAPI''
     ''/paapi5/searchitems'' (JObject [(''Keywords'', JStr ''shoes'')])"
  using sign_paapi_request_deterministic
    [of "\<lparr> utcnow = \<lparr> year = 2024, month = 1, day = 1, hour = 0, minute = 0, second = 0 \<rparr>,
           environ = (\<lambda>name. None) \<rparr>"
        "\<lparr> utcnow = \<lparr> year = 2024, month = 1, day = 1, hour = 0, minute = 0, second = 0 \<rparr>,
           environ = (\<lambda>name. Some ''x'') \<rparr>"
        "''AKIDEXAMPLE''" "''secret''" "''webservices.amazon.in''" "''eu-west-1''"
        "''ProductAdvertisingAPI''" "''/paapi5/searchitems''"
        "JObject [(''Keywords'', JStr ''shoes'')]"]
  by simp

text \<open>
  C3. The signing key is the chain of four HMAC-SHA256 steps over binary digests, starting
  from the UTF-8 bytes of \<^verbatim>\<open>"AWS4" + secret_key\<close> and keyed in turn by the date stamp, the
  region, the service and \<^verbatim>\<open>"aws4_request"\<close>; and the signature that the signer puts in the
  \<^verbatim>\<open>Authorization\<close> header is the lowercase hexadecimal text of the HMAC-SHA256 of the
  string to sign under that key.
\<close>

theorem signing_key_chain:
  "signing_key secret_key date_stamp region service =
     hmac_sha256
       (hmac_sha256
          (hmac_sha256
             (hmac_sha256 (utf8 (''AWS4'' @ secret_key)) (utf8 date_stamp))
             (utf8 region))
          (utf8 service))
       (utf8 ''aws4_request'') \<and>
   (let date_stamp = date_stamp_of (utcnow w);
        amz_date = amz_date_of (utcnow w);
        scope = credential_scope date_stamp region service;
        sts = string_to_sign amz_date scope (canonical_request host amz_date api_path payload);
        sig = hexdigest (hmac_sha256 (signing_key secret_key date_stamp region service) (utf8 sts))
    in map_of (sign_paapi_request w access_key secret_key host region service api_path payload)
         ''Authorization'' = Some (authorization_header access_key scope sig) \<and>
       set sig \<subseteq> set ''0123456789abcdef'')"
  unfolding Let_def
proof (intro conjI)
  show "signing_key secret_key date_stamp region service =
     hmac_sha256
       (hmac_sha256
          (hmac_sha256
             (hmac_sha256 (utf8 (''AWS4'' @ secret_key)) (utf8 date_stamp))
             (utf8 region))
          (utf8 service))
       (utf8 ''aws4_request'')"
    by (simp add: signing_key_def sign_key_def)
next
  show "map_of (sign_paapi_request w access_key secret_key host region service api_path payload)
         ''Authorization'' =
        Some (authorization_header access_key
               (credential_scope (date_stamp_of (utcnow w)) region service)
               (hexdigest (hmac_sha256
                  (signing_key secret_key (date_stamp_of (utcnow w)) region service)
                  (utf8 (string_to_sign (amz_date_of (utcnow w))
                     (credential_scope (date_stamp_of (utcnow w)) region service)
                     (canonical_request host (amz_date_of (utcnow w)) api_path payload))))))"
    using sign_authorization [of w access_key secret_key host region service api_path payload]
    by (simp add: signature_def)
next
  show "set (hexdigest (hmac_sha256
               (signing_key secret_key (date_stamp_of (utcnow w)) region service)
               (utf8 (string_to_sign (amz_date_of (utcnow w))
                  (credential_scope (date_stamp_of (utcnow w)) region service)
                  (canonical_request host (amz_date_of (utcnow w)) api_path payload)))))
        \<subseteq> set ''0123456789abcdef''"
    by (rule hexdigest_lower)
qed

text \<open>
  C4. The canonical request is the join with newlines of \<^verbatim>\<open>POST\<close>, the path, the empty
  query string, the block \<^verbatim>\<open>host:<host>\nx-amz-date:<amzdate>\n\<close>, \<^verbatim>\<open>host;x-amz-date\<close> and
  the hexadecimal SHA-256 of the UTF-8 bytes of the compact JSON payload. The string to sign
  is the join with newlines of \<^verbatim>\<open>AWS4-HMAC-SHA256\<close>, the full timestamp, the scope
  \<^verbatim>\<open><datestamp>/<region>/<service>/aws4_request\<close> and the hexadecimal SHA-256 of the UTF-8
  bytes of the canonical request. The signer signs this string to sign, built over this
  canonical request at the time of the call.
\<close>

theorem canonical_request_and_string_to_sign:
  "canonical_request host amz_date api_path payload =
     ''POST'' @ [CHR 0x0A] @
     api_path @ [CHR 0x0A] @
     [] @ [CHR 0x0A] @
     (''host:'' @ host @ [CHR 0x0A] @ ''x-amz-date:'' @ amz_date @ [CHR 0x0A]) @ [CHR 0x0A] @
     ''host;x-amz-date'' @ [CHR 0x0A] @
     hexdigest (sha256 (utf8 (json_dumps '','' '':'' payload))) \<and>
   string_to_sign amz_date (credential_scope date_stamp region service) creq =
     ''AWS4-HMAC-SHA256'' @ [CHR 0x0A] @
     amz_date @ [CHR 0x0A] @
     (date_stamp @ ''/'' @ region @ ''/'' @ service @ ''/aws4_request'') @ [CHR 0x0A] @
     hexdigest (sha256 (utf8 creq)) \<and>
   map_of (sign_paapi_request w access_key secret_key host region service api_path payload)
     ''Authorization'' =
     Some (authorization_header access_key
            (credential_scope (date_stamp_of (utcnow w)) region service)
            (signature (signing_key secret_key (date_stamp_of (utcnow w)) region service)
               (string_to_sign (amz_date_of (utcnow w))
                  (credential_scope (date_stamp_of (utcnow w)) region service)
                  (canonical_request host (amz_date_of (utcnow w)) api_path payload))))"
proof (intro conjI)
  show "canonical_request host amz_date api_path payload =
     ''POST'' @ [CHR 0x0A] @
     api_path @ [CHR 0x0A] @
     [] @ [CHR 0x0A] @
     (''host:'' @ host @ [CHR 0x0A] @ ''x-amz-date:'' @ amz_date @ [CHR 0x0A]) @ [CHR 0x0A] @
     ''host;x-amz-date'' @ [CHR 0x0A] @
     hexdigest (sha256 (utf8 (json_dumps '','' '':'' payload)))"
    by (simp add: canonical_request_def canonical_headers_def signed_headers_def
        payload_hash_def payload_str_def newline_def)
next
  show "string_to_sign amz_date (credential_scope date_stamp region service) creq =
     ''AWS4-HMAC-SHA256'' @ [CHR 0x0A] @
     amz_date @ [CHR 0x0A] @
     (date_stamp @ ''/'' @ region @ ''/'' @ service @ ''/aws4_request'') @ [CHR 0x0A] @
     hexdigest (sha256 (utf8 creq))"
    by (simp add: string_to_sign_def credential_scope_layout algorithm_def newline_def)
next
  show "map_of (sign_paapi_request w access_key secret_key host region service api_path payload)
     ''Authorization'' =
     Some (authorization_header access_key
            (credential_scope (date_stamp_of (utcnow w)) region service)
            (signature (signing_key secret_key (date_stamp_of (utcnow w)) region service)
               (string_to_sign (amz_date_of (utcnow w))
                  (credential_scope (date_stamp_of (utcnow w)) region service)
                  (canonical_request host (amz_date_of (utcnow w)) api_path payload))))"
    by (rule sign_authorization)
qed

text \<open>
  C5. The \<^verbatim>\<open>Authorization\<close> header is
  \<^verbatim>\<open>AWS4-HMAC-SHA256 Credential=<accessKey>/<dateStamp>/<region>/<service>/aws4_request,
  SignedHeaders=host;x-amz-date, Signature=<signature>\<close> with a signature of 64 lowercase
  hexadecimal characters. For the access key \<^verbatim>\<open>AKIDEXAMPLE\<close>, the secret \<^verbatim>\<open>secret\<close>, the host
  \<^verbatim>\<open>webservices.amazon.in\<close>, the region \<^verbatim>\<open>eu-west-1\<close>, the service \<^verbatim>\<open>ProductAdvertisingAPI\<close>,
  the path \<^verbatim>\<open>/paapi5/searchitems\<close>, the payload \<^verbatim>\<open>{"Keywords":"shoes"}\<close> and the clock at
  2024-01-01T00:00:00Z, the header starts with the text of the scenario, dated \<^verbatim>\<open>20240101\<close>.
\<close>

theorem authorization_header_format:
  "(\<exists>sig. map_of (sign_paapi_request w access_key secret_key host region service api_path payload)
            ''Authorization'' =
          Some (''AWS4-HMAC-SHA256 Credential='' @ access_key @ ''/'' @ date_stamp_of (utcnow w) @
                ''/'' @ region @ ''/'' @ service @
                ''/aws4_request, SignedHeaders=host;x-amz-date, Signature='' @ sig) \<and>
          length sig = 64 \<and> set sig \<subseteq> set ''0123456789abcdef'') \<and>
   (\<exists>sig. map_of (sign_paapi_request
                   (w\<lparr>utcnow := \<lparr> year = 2024, month = 1, day = 1,
                                  hour = 0, minute = 0, second = 0 \<rparr>\<rparr>)
                   ''AKIDEXAMPLE'' ''secret'' ''webservices.amazon.in'' ''eu-west-1''
                   ''ProductAdvertisingAPI'' ''/paapi5/searchitems''
                   (JObject [(''Keywords'', JStr ''shoes'')]))
            ''Authorization'' =
          Some (''AWS4-HMAC-SHA256 Credential=AKIDEXAMPLE/20240101/eu-west-1/ProductAdvertisingAPI/aws4_request, SignedHeaders=host;x-amz-date, Signature='' @ sig) \<and>
          length sig = 64 \<and> set sig \<subseteq> set ''0123456789abcdef'')"
proof -
  have general: "\<exists>sig. map_of (sign_paapi_request w' a s h r sv p pl) ''Authorization'' =
          Some (''AWS4-HMAC-SHA256 Credential='' @ a @ ''/'' @ date_stamp_of (utcnow w') @
                ''/'' @ r @ ''/'' @ sv @
                ''/aws4_request, SignedHeaders=host;x-amz-date, Signature='' @ sig) \<and>
          length sig = 64 \<and> set sig \<subseteq> set ''0123456789abcdef''"
    for w' a s h r sv p pl
  proof (intro exI conjI)
    show "map_of (sign_paapi_request w' a s h r sv p pl) ''Authorization'' =
          Some (''AWS4-HMAC-SHA256 Credential='' @ a @ ''/'' @ date_stamp_of (utcnow w') @
                ''/'' @ r @ ''/'' @ sv @
                ''/aws4_request, SignedHeaders=host;x-amz-date, Signature='' @
                signature (signing_key s (date_stamp_of (utcnow w')) r sv)
                  (string_to_sign (amz_date_of (utcnow w'))
                     (credential_scope (date_stamp_of (utcnow w')) r sv)
                     (canonical_request h (amz_date_of (utcnow w')) p pl)))"
      unfolding sign_authorization authorization_layout by (rule refl)
    show "length (signature (signing_key s (date_stamp_of (utcnow w')) r sv)
                  (string_to_sign (amz_date_of (utcnow w'))
                     (credential_scope (date_stamp_of (utcnow w')) r sv)
                     (canonical_request h (amz_date_of (utcnow w')) p pl))) = 64"
      by (rule length_signature)
    show "set (signature (signing_key s (date_stamp_of (utcnow w')) r sv)
                  (string_to_sign (amz_date_of (utcnow w'))
                     (credential_scope (date_stamp_of (utcnow w')) r sv)
                     (canonical_request h (amz_date_of (utcnow w')) p pl)))
          \<subseteq> set ''0123456789abcdef''"
      by (rule signature_lower)
  qed
  have stamp: "date_stamp_of (utcnow (w\<lparr>utcnow := \<lparr> year = 2024, month = 1, day = 1,
                                  hour = 0, minute = 0, second = 0 \<rparr>\<rparr>)) = ''20240101''"
    by (simp add: date_stamp_layout zpad_values)
  have "\<exists>sig. map_of (sign_paapi_request
                   (w\<lparr>utcnow := \<lparr> year = 2024, month = 1, day = 1,
                                  hour = 0, minute = 0, second = 0 \<rparr>\<rparr>)
                   ''AKIDEXAMPLE'' ''secret'' ''webservices.amazon.in'' ''eu-west-1''
                   ''ProductAdvertisingAPI'' ''/paapi5/searchitems''
                   (JObject [(''Keywords'', JStr ''shoes'')]))
            ''Authorization'' =
          Some (''AWS4-HMAC-SHA256 Credential='' @ ''AKIDEXAMPLE'' @ ''/'' @ ''20240101'' @
                ''/'' @ ''eu-west-1'' @ ''/'' @ ''ProductAdvertisingAPI'' @
                ''/aws4_request, SignedHeaders=host;x-amz-date, Signature='' @ sig) \<and>
          length sig = 64 \<and> set sig \<subseteq> set ''0123456789abcdef''"
    using general [of "w\<lparr>utcnow := \<lparr> year = 2024, month = 1, day = 1,
                                  hour = 0, minute = 0, second = 0 \<rparr>\<rparr>"
            "''AKIDEXAMPLE''" "''secret''" "''webservices.amazon.in''" "''eu-west-1''"
            "''ProductAdvertisingAPI''" "''/paapi5/searchitems''"
            "JObject [(''Keywords'', JStr ''shoes'')]"]
    unfolding stamp .
  then have scenario: "\<exists>sig. map_of (sign_paapi_request
                   (w\<lparr>utcnow := \<lparr> year = 2024, month = 1, day = 1,
                                  hour = 0, minute = 0, second = 0 \<rparr>\<rparr>)
                   ''AKIDEXAMPLE'' ''secret'' ''webservices.amazon.in'' ''eu-west-1''
                   ''ProductAdvertisingAPI'' ''/paapi5/searchitems''
                   (JObject [(''Keywords'', JStr ''shoes'')]))
            ''Authorization'' =
          Some (''AWS4-HMAC-SHA256 Credential=AKIDEXAMPLE/20240101/eu-west-1/ProductAdvertisingAPI/aws4_request, SignedHeaders=host;x-amz-date, Signature='' @ sig) \<and>
          length sig = 64 \<and> set sig \<subseteq> set ''0123456789abcdef''"
    by simp
  from general [of w access_key secret_key host region service api_path payload] scenario
  show ?thesis by (rule conjI)
qed

text \<open>
  C6. The returned mapping has exactly the five keys \<^verbatim>\<open>Content-Type\<close>, \<^verbatim>\<open>X-Amz-Date\<close>,
  \<^verbatim>\<open>X-Amz-Target\<close>, \<^verbatim>\<open>Authorization\<close> and \<^verbatim>\<open>Host\<close>, each once; \<^verbatim>\<open>Content-Type\<close> is
  \<^verbatim>\<open>application/json; charset=utf-8\<close>, \<^verbatim>\<open>X-Amz-Target\<close> is the service followed by
  \<^verbatim>\<open>.SearchItems\<close>, \<^verbatim>\<open>X-Amz-Date\<close> is the full timestamp \<^verbatim>\<open>YYYYMMDDTHHMMSSZ\<close> of the clock, and
  \<^verbatim>\<open>Host\<close> is the host argument.
\<close>

theorem header_completeness:
  "map fst (sign_paapi_request w access_key secret_key host region service api_path payload) =
     [''Content-Type'', ''X-Amz-Date'', ''X-Amz-Target'', ''Authorization'', ''Host''] \<and>
   dom (map_of (sign_paapi_request w access_key secret_key host region service api_path payload)) =
     {''Content-Type'', ''X-Amz-Date'', ''X-Amz-Target'', ''Authorization'', ''Host''} \<and>
   map_of (sign_paapi_request w access_key secret_key host region service api_path payload)
     ''Content-Type'' = Some ''application/json; charset=utf-8'' \<and>
   map_of (sign_paapi_request w access_key secret_key host region service api_path payload)
     ''X-Amz-Target'' = Some (service @ ''.SearchItems'') \<and>
   map_of (sign_paapi_request w access_key secret_key host region service api_path payload)
     ''X-Amz-Date'' =
     Some (zpad 4 (year (utcnow w)) @ zpad 2 (month (utcnow w)) @ zpad 2 (day (utcnow w)) @ ''T'' @
           zpad 2 (hour (utcnow w)) @ zpad 2 (minute (utcnow w)) @ zpad 2 (second (utcnow w)) @
           ''Z'') \<and>
   map_of (sign_paapi_request w access_key secret_key host region service api_path payload)
     ''Host'' = Some host"
  by (simp add: sign_paapi_request_def Let_def amz_date_layout dom_def) auto

section \<open>The search handler\<close>

lemma py_in_object: "py_in k (JObject kvs) = Inr (map_of kvs k \<noteq> None)"
  by (simp add: map_of_eq_None_iff)

lemma listing_flag:
  "boolean_flag l \<Longrightarrow>
   and_then (py_get l ''IsPrimeEligible'' (JBool False)) (\<lambda>flag. Inr (truthy flag)) =
   Inr (listing_prime l)"
  by (cases l) (auto simp: and_then_def split: option.splits json.splits)

lemma listings_flag:
  "listings_shape ls \<Longrightarrow>
   (if \<not> truthy ls then Inr False
    else and_then (getitem0 ls) (\<lambda>first_listing.
           and_then (py_get first_listing ''IsPrimeEligible'' (JBool False)) (\<lambda>flag.
             Inr (truthy flag)))) =
   Inr (listings_prime ls)"
proof (cases ls)
  case (JArray xs)
  assume shape: "listings_shape ls"
  show ?thesis
  proof (cases xs)
    case Nil
    with JArray show ?thesis by simp
  next
    case (Cons first_listing rest)
    with JArray shape have "boolean_flag first_listing" by simp
    from listing_flag [OF this] JArray Cons show ?thesis by (simp add: and_then_def)
  qed
qed simp_all

lemma offers_flag:
  "offers_shape offers \<Longrightarrow>
   and_then (py_in ''Listings'' offers) (\<lambda>has_listings.
     if \<not> has_listings then Inr False
     else and_then (getitem offers ''Listings'') (\<lambda>listings.
       if \<not> truthy listings then Inr False
       else and_then (getitem0 listings) (\<lambda>first_listing.
         and_then (py_get first_listing ''IsPrimeEligible'' (JBool False)) (\<lambda>flag.
           Inr (truthy flag))))) =
   Inr (offers_prime offers)"
proof (cases offers)
  case (JObject kvs)
  assume shape: "offers_shape offers"
  show ?thesis
  proof (cases "map_of kvs ''Listings''")
    case None
    with JObject show ?thesis by (simp add: py_in_object and_then_def del: py_in.simps)
  next
    case (Some ls)
    with JObject shape have "listings_shape ls" by simp
    from listings_flag [OF this] JObject Some show ?thesis
      by (simp add: py_in_object and_then_def del: py_in.simps)
  qed
qed simp_all

lemma is_prime_eligible_shape:
  "item_shape item \<Longrightarrow> is_prime_eligible item = Inr (first_listing_prime item)"
proof (cases item)
  case (JObject kvs)
  assume shape: "item_shape item"
  show ?thesis
  proof (cases "map_of kvs ''Offers''")
    case None
    with JObject show ?thesis
      by (simp add: is_prime_eligible_def py_in_object and_then_def del: py_in.simps)
  next
    case (Some offers)
    with JObject shape have "offers_shape offers" by simp
    from offers_flag [OF this] JObject Some show ?thesis
      by (simp add: is_prime_eligible_def py_in_object and_then_def del: py_in.simps)
  qed
qed simp_all

lemma filter_loop_shape:
  "list_all item_shape items \<Longrightarrow>
   filter_loop prime_only items acc =
   Inr (acc @ (if truthy prime_only then filter first_listing_prime items else items))"
proof (induction items arbitrary: acc)
  case Nil
  then show ?case by simp
next
  case (Cons item items)
  then have "is_prime_eligible item = Inr (first_listing_prime item)"
    by (simp add: is_prime_eligible_shape)
  with Cons show ?case by simp
qed

lemma filter_response_items:
  "map_of r ''SearchResult'' = Some (JObject sr) \<Longrightarrow> map_of sr ''Items'' = Some (JArray items) \<Longrightarrow>
   filter_response prime_only (JObject r) = filter_loop prime_only items []"
  by (simp add: filter_response_def py_in_object and_then_def del: py_in.simps)

text \<open>
  C7. Take an upstream response whose \<^verbatim>\<open>SearchResult.Items\<close> is a list of items, each an object
  that has no \<^verbatim>\<open>Offers.Listings\<close> entry (or an empty one) or whose first listing has a boolean
  \<^verbatim>\<open>IsPrimeEligible\<close>. With \<^verbatim>\<open>primeOnly\<close> true the filter keeps, in order, exactly the items
  whose first listing has \<^verbatim>\<open>IsPrimeEligible\<close> equal to \<^verbatim>\<open>true\<close>, so an item without listings is
  dropped; with \<^verbatim>\<open>primeOnly\<close> false it keeps every item.
\<close>

theorem prime_filter:
  assumes "map_of r ''SearchResult'' = Some (JObject sr)"
    and "map_of sr ''Items'' = Some (JArray items)"
    and "list_all item_shape items"
  shows "filter_response (JBool True) (JObject r) = Inr (filter first_listing_prime items) \<and>
         filter_response (JBool False) (JObject r) = Inr items"
  using assms by (simp add: filter_response_items filter_loop_shape)

theorem prime_filter_witness:
  "map_of [(''SearchResult'', JObject [(''Items'', JArray sample_items)])] ''SearchResult'' =
     Some (JObject [(''Items'', JArray sample_items)]) \<and>
   map_of [(''Items'', JArray sample_items)] ''Items'' = Some (JArray sample_items) \<and>
   list_all item_shape sample_items \<and>
   filter_response (JBool True)
     (JObject [(''SearchResult'', JObject [(''Items'', JArray sample_items)])]) =
     Inr [item_prime] \<and>
   filter_response (JBool False)
     (JObject [(''SearchResult'', JObject [(''Items'', JArray sample_items)])]) =
     Inr [item_prime, item_not_prime, item_no_offers, item_no_listings]"
  using prime_filter [of "[(''SearchResult'', JObject [(''Items'', JArray sample_items)])]"
      "[(''Items'', JArray sample_items)]" sample_items]
  by (simp add: sample_items_def item_prime_def item_not_prime_def item_no_offers_def
      item_no_listings_def)

text \<open>
  C8. When the JSON object of the request has no \<^verbatim>\<open>keywords\<close> field, or has one whose value
  is falsy (\<^verbatim>\<open>null\<close>, the empty string, and likewise \<^verbatim>\<open>false\<close>, \<^verbatim>\<open>0\<close>, an empty list or
  object), the handler answers with status 400 and the body
  \<^verbatim>\<open>{"error": "Keywords are required."}\<close>, and makes no call: it neither signs nor posts.
\<close>

theorem keywords_required:
  "map_of body ''keywords'' = None \<or> (\<exists>v. map_of body ''keywords'' = Some v \<and> \<not> truthy v) \<Longrightarrow>
   search_products cfg w post (JObject body) =
     (Reply 400 (JObject [(''error'', JStr ''Keywords are required.'')]), [])"
  by (auto simp: search_products_def and_then_def)

theorem keywords_required_witness:
  "(map_of [(''keywords'', JStr [])] ''keywords'' = None \<or>
    (\<exists>v. map_of [(''keywords'', JStr [])] ''keywords'' = Some v \<and> \<not> truthy v)) \<and>
   search_products sample_config sample_world sample_post (JObject [(''keywords'', JStr [])]) =
     (Reply 400 (JObject [(''error'', JStr ''Keywords are required.'')]), []) \<and>
   (map_of [(''primeOnly'', JBool False)] ''keywords'' = None \<or>
    (\<exists>v. map_of [(''primeOnly'', JBool False)] ''keywords'' = Some v \<and> \<not> truthy v)) \<and>
   search_products sample_config sample_world sample_post (JObject [(''primeOnly'', JBool False)]) =
     (Reply 400 (JObject [(''error'', JStr ''Keywords are required.'')]), [])"
  using keywords_required [of "[(''keywords'', JStr [])]" sample_config sample_world sample_post]
    keywords_required [of "[(''primeOnly'', JBool False)]" sample_config sample_world sample_post]
  by simp

text \<open>
  C9. A request object without a \<^verbatim>\<open>primeOnly\<close> field is handled as the same object with
  \<^verbatim>\<open>primeOnly\<close> set to \<^verbatim>\<open>true\<close>: same reply, same calls. In particular, when the handler has
  posted a request and the upstream service has answered it with a JSON document, the reply
  is built by the filter with \<^verbatim>\<open>primeOnly\<close> true.
\<close>

theorem prime_only_default:
  "''primeOnly'' \<notin> set (map fst body) \<Longrightarrow>
   search_products cfg w post (JObject body) =
     search_products cfg w post (JObject (body @ [(''primeOnly'', JBool True)])) \<and>
   (snd (search_products cfg w post (JObject body)) = [SignCall, PostCall req] \<and>
    post req = Response api_response \<longrightarrow>
    fst (search_products cfg w post (JObject body)) =
      (case filter_response (JBool True) api_response of
         Inl e \<Rightarrow> Failed (Unexpected e)
       | Inr filtered_items \<Rightarrow> Reply 200 (success_body filtered_items)))"
proof (intro conjI impI)
  assume absent: "''primeOnly'' \<notin> set (map fst body)"
  then have none: "map_of body ''primeOnly'' = None"
    by (simp add: map_of_eq_None_iff)
  have kw: "map_of (body @ [(''primeOnly'', JBool True)]) ''keywords'' = map_of body ''keywords''"
    by (simp add: map_add_def split: option.splits)
  have po: "map_of (body @ [(''primeOnly'', JBool True)]) ''primeOnly'' = Some (JBool True)"
    using none by (simp add: map_add_def)
  show "search_products cfg w post (JObject body) =
     search_products cfg w post (JObject (body @ [(''primeOnly'', JBool True)]))"
    unfolding search_products_def py_get.simps kw po none by simp
  assume sent: "snd (search_products cfg w post (JObject body)) = [SignCall, PostCall req] \<and>
    post req = Response api_response"
  then show "fst (search_products cfg w post (JObject body)) =
      (case filter_response (JBool True) api_response of
         Inl e \<Rightarrow> Failed (Unexpected e)
       | Inr filtered_items \<Rightarrow> Reply 200 (success_body filtered_items))"
    unfolding search_products_def py_get.simps none
    by (auto simp: and_then_def Let_def split: if_splits option.splits)
qed

theorem prime_only_default_witness:
  "''primeOnly'' \<notin> set (map fst [(''keywords'', JStr ''shoes'')]) \<and>
   search_products sample_config sample_world sample_post (JObject [(''keywords'', JStr ''shoes'')]) =
     search_products sample_config sample_world sample_post
       (JObject ([(''keywords'', JStr ''shoes'')] @ [(''primeOnly'', JBool True)])) \<and>
   snd (search_products sample_config sample_world sample_post
          (JObject [(''keywords'', JStr ''shoes'')])) =
     [SignCall, PostCall (sample_request (JStr ''shoes''))] \<and>
   sample_post (sample_request (JStr ''shoes'')) =
     Response (JObject [(''SearchResult'', JObject [(''Items'', JArray sample_items)])]) \<and>
   fst (search_products sample_config sample_world sample_post
          (JObject [(''keywords'', JStr ''shoes'')])) =
     Reply 200 (JObject [(''Items'', JArray [item_prime]), (''TotalFilteredCount'', JInt 1)])"
proof -
  have absent: "''primeOnly'' \<notin> set (map fst [(''keywords'', JStr ''shoes'')])"
    by simp
  have sent: "snd (search_products sample_config sample_world sample_post
          (JObject [(''keywords'', JStr ''shoes'')])) =
     [SignCall, PostCall (sample_request (JStr ''shoes''))]"
    by (simp add: search_products_def and_then_def Let_def sample_config_def sample_request_def
        SERVICE_def)
  have answer: "sample_post (sample_request (JStr ''shoes'')) =
     Response (JObject [(''SearchResult'', JObject [(''Items'', JArray sample_items)])])"
    by (simp add: sample_post_def)
  have kept: "filter_response (JBool True)
     (JObject [(''SearchResult'', JObject [(''Items'', JArray sample_items)])]) = Inr [item_prime]"
    by (simp add: filter_response_def is_prime_eligible_def and_then_def sample_items_def
        item_prime_def item_not_prime_def item_no_offers_def item_no_listings_def)
  note default = prime_only_default [OF absent, of sample_config sample_world sample_post
      "sample_request (JStr ''shoes'')"
      "JObject [(''SearchResult'', JObject [(''Items'', JArray sample_items)])]"]
  from default have same: "search_products sample_config sample_world sample_post
       (JObject [(''keywords'', JStr ''shoes'')]) =
     search_products sample_config sample_world sample_post
       (JObject ([(''keywords'', JStr ''shoes'')] @ [(''primeOnly'', JBool True)]))"
    by (rule conjunct1)
  from default sent answer have "fst (search_products sample_config sample_world sample_post
          (JObject [(''keywords'', JStr ''shoes'')])) =
     (case filter_response (JBool True)
             (JObject [(''SearchResult'', JObject [(''Items'', JArray sample_items)])]) of
        Inl e \<Rightarrow> Failed (Unexpected e)
      | Inr filtered_items \<Rightarrow> Reply 200 (success_body filtered_items))"
    by blast
  then have reply: "fst (search_products sample_config sample_world sample_post
          (JObject [(''keywords'', JStr ''shoes'')])) =
     Reply 200 (JObject [(''Items'', JArray [item_prime]), (''TotalFilteredCount'', JInt 1)])"
    unfolding kept by (simp add: success_body_def)
  from absent same sent answer reply show ?thesis
    by (intro conjI)
qed

lemma status_error_reply_not_reply: "status_error_reply error_body \<noteq> Reply n body"
  by (simp add: status_error_reply_def split: option.splits sum.splits bool.splits)

lemma success_reply_shape:
  "fst (search_products cfg w post data) = Reply 200 body \<Longrightarrow>
   \<exists>filtered_items. body = success_body filtered_items"
  using status_error_reply_not_reply
  by (auto simp: search_products_def Let_def
      split: sum.splits prod.splits if_splits option.splits upstream.splits)

lemma filter_response_no_result:
  "map_of r ''SearchResult'' = None \<Longrightarrow> filter_response prime_only (JObject r) = Inr []"
  by (simp add: filter_response_def py_in_object and_then_def del: py_in.simps)

lemma filter_response_no_items:
  "map_of r ''SearchResult'' = Some (JObject sr) \<Longrightarrow> map_of sr ''Items'' = None \<Longrightarrow>
   filter_response prime_only (JObject r) = Inr []"
  by (simp add: filter_response_def py_in_object and_then_def del: py_in.simps)

lemma posted_reply:
  "snd (search_products cfg w post data) = [SignCall, PostCall req] \<Longrightarrow>
   post req = Response api_response \<Longrightarrow>
   \<exists>prime_only. fst (search_products cfg w post data) =
     (case filter_response prime_only api_response of
        Inl e \<Rightarrow> Failed (Unexpected e)
      | Inr filtered_items \<Rightarrow> Reply 200 (success_body filtered_items))"
  by (auto simp: search_products_def Let_def
      split: sum.split_asm prod.split_asm if_split_asm option.split_asm)

text \<open>
  C10. In every reply with status 200 the field \<^verbatim>\<open>TotalFilteredCount\<close> is the length of the list
  \<^verbatim>\<open>Items\<close>. When the handler has posted a request and the upstream service has answered with
  a JSON object that has no \<^verbatim>\<open>SearchResult\<close> key, or whose \<^verbatim>\<open>SearchResult\<close> is an object
  without an \<^verbatim>\<open>Items\<close> key, the reply has status 200, an empty \<^verbatim>\<open>Items\<close> list and a
  \<^verbatim>\<open>TotalFilteredCount\<close> of 0.
\<close>

theorem total_filtered_count:
  "(fst (search_products cfg w post data) = Reply 200 body \<longrightarrow>
      (\<exists>filtered_items.
         body = JObject [(''Items'', JArray filtered_items),
                         (''TotalFilteredCount'', JInt (int (length filtered_items)))])) \<and>
   (snd (search_products cfg w post data) = [SignCall, PostCall req] \<and>
    post req = Response (JObject r) \<and>
    (map_of r ''SearchResult'' = None \<or>
     (\<exists>sr. map_of r ''SearchResult'' = Some (JObject sr) \<and> map_of sr ''Items'' = None)) \<longrightarrow>
      fst (search_products cfg w post data) =
        Reply 200 (JObject [(''Items'', JArray []), (''TotalFilteredCount'', JInt 0)]))"
proof (intro conjI impI)
  assume "fst (search_products cfg w post data) = Reply 200 body"
  from success_reply_shape [OF this]
  show "\<exists>filtered_items.
         body = JObject [(''Items'', JArray filtered_items),
                         (''TotalFilteredCount'', JInt (int (length filtered_items)))]"
    by (simp add: success_body_def)
next
  assume h: "snd (search_products cfg w post data) = [SignCall, PostCall req] \<and>
    post req = Response (JObject r) \<and>
    (map_of r ''SearchResult'' = None \<or>
     (\<exists>sr. map_of r ''SearchResult'' = Some (JObject sr) \<and> map_of sr ''Items'' = None))"
  then have empty: "filter_response prime_only (JObject r) = Inr []" for prime_only
    using filter_response_no_result filter_response_no_items by blast
  from h posted_reply [of cfg w post data req "JObject r"]
  obtain prime_only where "fst (search_products cfg w post data) =
     (case filter_response prime_only (JObject r) of
        Inl e \<Rightarrow> Failed (Unexpected e)
      | Inr filtered_items \<Rightarrow> Reply 200 (success_body filtered_items))"
    by blast
  then show "fst (search_products cfg w post data) =
        Reply 200 (JObject [(''Items'', JArray []), (''TotalFilteredCount'', JInt 0)])"
    by (simp add: empty success_body_def)
qed

theorem total_filtered_count_witness:
  "fst (search_products sample_config sample_world empty_result_post
          (JObject [(''keywords'', JStr ''shoes'')])) =
     Reply 200 (JObject [(''Items'', JArray []), (''TotalFilteredCount'', JInt 0)]) \<and>
   (\<exists>filtered_items.
      JObject [(''Items'', JArray []), (''TotalFilteredCount'', JInt 0)] =
      JObject [(''Items'', JArray filtered_items),
               (''TotalFilteredCount'', JInt (int (length filtered_items)))]) \<and>
   snd (search_products sample_config sample_world empty_result_post
          (JObject [(''keywords'', JStr ''shoes'')])) =
     [SignCall, PostCall (sample_request (JStr ''shoes''))] \<and>
   empty_result_post (sample_request (JStr ''shoes'')) =
     Response (JObject [(''SearchResult'', JObject [])]) \<and>
   (\<exists>sr. map_of [(''SearchResult'', JObject [])] ''SearchResult'' = Some (JObject sr) \<and>
         map_of sr ''Items'' = None)"
proof -
  have sent: "snd (search_products sample_config sample_world empty_result_post
          (JObject [(''keywords'', JStr ''shoes'')])) =
     [SignCall, PostCall (sample_request (JStr ''shoes''))]"
    by (simp add: search_products_def and_then_def Let_def sample_config_def sample_request_def
        SERVICE_def)
  have answer: "empty_result_post (sample_request (JStr ''shoes'')) =
     Response (JObject [(''SearchResult'', JObject [])])"
    by (simp add: empty_result_post_def)
  have lacks: "\<exists>sr. map_of [(''SearchResult'', JObject [])] ''SearchResult'' = Some (JObject sr) \<and>
         map_of sr ''Items'' = None"
    by simp
  note count = total_filtered_count [of sample_config sample_world empty_result_post
      "JObject [(''keywords'', JStr ''shoes'')]"
      "JObject [(''Items'', JArray []), (''TotalFilteredCount'', JInt 0)]"
      "sample_request (JStr ''shoes'')" "[(''SearchResult'', JObject [])]"]
  from count sent answer lacks
  have reply: "fst (search_products sample_config sample_world empty_result_post
          (JObject [(''keywords'', JStr ''shoes'')])) =
     Reply 200 (JObject [(''Items'', JArray []), (''TotalFilteredCount'', JInt 0)])"
    by blast
  with count have shape: "\<exists>filtered_items.
      JObject [(''Items'', JArray []), (''TotalFilteredCount'', JInt 0)] =
      JObject [(''Items'', JArray filtered_items),
               (''TotalFilteredCount'', JInt (int (length filtered_items)))]"
    by blast
  from reply shape sent answer lacks show ?thesis
    by (intro conjI)
qed

lemma sample_payload_default:
  \<open>json_dumps_default (make_payload sample_config (JStr ''shoes'')) =
     ''{"Keywords": "shoes", "SearchIndex": "All", "PartnerTag": "tag-21", "PartnerType": "Associates", "ItemCount": 10, "Resources": ["Images.Primary.Medium", "ItemInfo.Title", "Offers.Listings.Price", "Offers.Listings.IsPrimeEligible"]}''\<close>
  by (simp add: json_dumps_default_def make_payload_def sample_config_def
      encode_basestring_ascii_def escape_char_def str_int_def dec.simps hex_digit_def)

lemma sample_payload_compact:
  \<open>payload_str (make_payload sample_config (JStr ''shoes'')) =
     ''{"Keywords":"shoes","SearchIndex":"All","PartnerTag":"tag-21","PartnerType":"Associates","ItemCount":10,"Resources":["Images.Primary.Medium","ItemInfo.Title","Offers.Listings.Price","Offers.Listings.IsPrimeEligible"]}''\<close>
  by (simp add: payload_str_def make_payload_def sample_config_def
      encode_basestring_ascii_def escape_char_def str_int_def dec.simps hex_digit_def)

lemma utf8_Cons: "utf8 (c # cs) = utf8_char c @ utf8 cs"
  by (simp add: utf8_def)

lemma dec_hd: "dec n \<noteq> [] \<and> hd (dec n) \<noteq> CHR '' ''"
proof (induction n rule: dec.induct)
  case (1 n)
  show ?case
  proof (cases "n < 10")
    case True
    with hex_digit_lower [of n] show ?thesis by (auto simp: dec.simps [of n])
  next
    case False
    with 1 show ?thesis by (simp add: dec.simps [of n])
  qed
qed

lemma json_dumps_hd:
  "json_dumps isep ksep v \<noteq> [] \<and> hd (json_dumps isep ksep v) \<noteq> CHR '' ''"
  by (cases v) (simp_all add: str_int_def encode_basestring_ascii_def dec_hd)

lemma default_differs_from_compact:
  "json_dumps_default (make_payload cfg kw) \<noteq> payload_str (make_payload cfg kw)"
proof (cases "json_dumps '','' '':'' kw")
  case Nil
  with json_dumps_hd [of "'',''" "'':''" kw] show ?thesis by simp
next
  case (Cons c cs)
  with json_dumps_hd [of "'',''" "'':''" kw] have "c \<noteq> CHR '' ''" by simp
  with Cons show ?thesis
    by (simp add: json_dumps_default_def payload_str_def make_payload_def
        encode_basestring_ascii_def escape_char_def)
qed

text \<open>
  C1. The handler signs one serialization of the payload and posts another. For the request
  \<^verbatim>\<open>{"keywords": "shoes"}\<close> the signer hashes the compact text (separators \<^verbatim>\<open>,\<close> and \<^verbatim>\<open>:\<close>),
  while the body given to \<^verbatim>\<open>requests.post\<close> is \<^verbatim>\<open>json.dumps(payload)\<close> with the default
  separators \<^verbatim>\<open>", "\<close> and \<^verbatim>\<open>": "\<close>; their UTF-8 bytes differ.
\<close>

theorem posted_body_is_not_signed_payload:
  \<open>snd (search_products sample_config sample_world sample_post
          (JObject [(''keywords'', JStr ''shoes'')])) =
     [SignCall, PostCall (sample_request (JStr ''shoes''))] \<and>
   out_data (sample_request (JStr ''shoes'')) =
     ''{"Keywords": "shoes", "SearchIndex": "All", "PartnerTag": "tag-21", "PartnerType": "Associates", "ItemCount": 10, "Resources": ["Images.Primary.Medium", "ItemInfo.Title", "Offers.Listings.Price", "Offers.Listings.IsPrimeEligible"]}'' \<and>
   payload_str (make_payload sample_config (JStr ''shoes'')) =
     ''{"Keywords":"shoes","SearchIndex":"All","PartnerTag":"tag-21","PartnerType":"Associates","ItemCount":10,"Resources":["Images.Primary.Medium","ItemInfo.Title","Offers.Listings.Price","Offers.Listings.IsPrimeEligible"]}'' \<and>
   utf8 (out_data (sample_request (JStr ''shoes''))) \<noteq>
     utf8 (payload_str (make_payload sample_config (JStr ''shoes'')))\<close>
proof (intro conjI)
  show "snd (search_products sample_config sample_world sample_post
          (JObject [(''keywords'', JStr ''shoes'')])) =
     [SignCall, PostCall (sample_request (JStr ''shoes''))]"
    by (simp add: search_products_def and_then_def Let_def sample_config_def sample_request_def
        SERVICE_def)
  have data: "out_data (sample_request (JStr ''shoes'')) =
     json_dumps_default (make_payload sample_config (JStr ''shoes''))"
    by (simp add: sample_request_def)
  show \<open>out_data (sample_request (JStr ''shoes'')) =
     ''{"Keywords": "shoes", "SearchIndex": "All", "PartnerTag": "tag-21", "PartnerType": "Associates", "ItemCount": 10, "Resources": ["Images.Primary.Medium", "ItemInfo.Title", "Offers.Listings.Price", "Offers.Listings.IsPrimeEligible"]}''\<close>
    unfolding data by (rule sample_payload_default)
  show \<open>payload_str (make_payload sample_config (JStr ''shoes'')) =
     ''{"Keywords":"shoes","SearchIndex":"All","PartnerTag":"tag-21","PartnerType":"Associates","ItemCount":10,"Resources":["Images.Primary.Medium","ItemInfo.Title","Offers.Listings.Price","Offers.Listings.IsPrimeEligible"]}''\<close>
    by (rule sample_payload_compact)
  show "utf8 (out_data (sample_request (JStr ''shoes''))) \<noteq>
     utf8 (payload_str (make_payload sample_config (JStr ''shoes'')))"
    unfolding data sample_payload_default sample_payload_compact
    by (simp add: utf8_Cons utf8_char_def)
qed

end
